theory Spec2Isabelle
  imports Main "HOL-Library.Sublist" "HOL-Library.AList" "HOL-Library.Word"
begin

chapter \<open>Investment video analyzer: a model of \<^verbatim>\<open>app.py\<close>\<close>

text \<open>
  The theory embeds the functions of \<^verbatim>\<open>src/app.py\<close> that acquire a video, build the
  request for the analysis service, parse the service's reply and render the decoded
  result. Python values are modelled as follows.

  \<^item> A \<^verbatim>\<open>str\<close> is a list of Unicode code points (\<open>pystr\<close>); \<open>lit\<close> turns an ASCII literal
    of the source into such a list and \<open>cp\<close> gives the code point of one ASCII character.
  \<^item> A value decoded by \<^verbatim>\<open>json.loads\<close> is a \<open>json\<close>; a Python \<^verbatim>\<open>dict\<close> keeps its
    insertion order, so an object is an association list.
  \<^item> An exception is a value of \<open>py_exception\<close>; a function that can raise returns a sum
    with \<open>Inl\<close> for the exception.
  \<^item> The Streamlit page, the file system and the temporary directories are the fields of
    the record \<open>world\<close>, passed through every function that touches them.
  \<^item> The video provider (\<^verbatim>\<open>yt_dlp\<close>) and the analysis service (\<^verbatim>\<open>genai\<close>) are not part of
    the repository: they are parameters of the functions that call them.
\<close>

section \<open>Python strings\<close>

type_synonym pystr = "nat list"

definition cp :: "char \<Rightarrow> nat" where
  "cp c = of_char c"

definition lit :: "string \<Rightarrow> pystr" where
  "lit cs = map cp cs"

text \<open>\<^verbatim>\<open>sub in s\<close>\<close>

fun py_contains :: "pystr \<Rightarrow> pystr \<Rightarrow> bool" where
  "py_contains sub [] = (sub = [])"
| "py_contains sub (c # cs) = (prefix sub (c # cs) \<or> py_contains sub cs)"

text \<open>\<^verbatim>\<open>s.find(sub)\<close> and \<^verbatim>\<open>s.rfind(sub)\<close>: the lowest and the highest index at which
  \<open>sub\<close> starts, \<open>-1\<close> when there is none.\<close>

fun find_from :: "pystr \<Rightarrow> pystr \<Rightarrow> nat \<Rightarrow> int" where
  "find_from sub [] i = (if sub = [] then int i else -1)"
| "find_from sub (c # cs) i =
     (if prefix sub (c # cs) then int i else find_from sub cs (Suc i))"

definition py_find :: "pystr \<Rightarrow> pystr \<Rightarrow> int" where
  "py_find s sub = find_from sub s 0"

fun rfind_from :: "pystr \<Rightarrow> pystr \<Rightarrow> nat \<Rightarrow> int \<Rightarrow> int" where
  "rfind_from sub [] i best = (if sub = [] then int i else best)"
| "rfind_from sub (c # cs) i best =
     rfind_from sub cs (Suc i) (if prefix sub (c # cs) then int i else best)"

definition py_rfind :: "pystr \<Rightarrow> pystr \<Rightarrow> int" where
  "py_rfind s sub = rfind_from sub s 0 (-1)"

text \<open>\<^verbatim>\<open>s[i:j]\<close>: a negative index counts from the end, and both indices are clamped to
  the string; the slice is empty when the upper index is not above the lower one.\<close>

definition py_slice :: "pystr \<Rightarrow> int \<Rightarrow> int \<Rightarrow> pystr" where
  "py_slice s i j =
     (let n = int (length s);
          lo = (if i < 0 then max (i + n) 0 else min i n);
          hi = (if j < 0 then max (j + n) 0 else min j n)
      in take (nat (hi - lo)) (drop (nat lo) s))"

text \<open>\<^verbatim>\<open>s.split(sep)\<close> for a non-empty separator: the pieces between the occurrences of
  \<open>sep\<close>, found from the left without overlap. (Python raises on an empty separator; the
  source only splits at two literals.)\<close>

function split_from :: "pystr \<Rightarrow> pystr \<Rightarrow> pystr \<Rightarrow> pystr list" where
  "split_from sep cur [] = [cur]"
| "split_from sep cur (c # cs) =
     (if sep \<noteq> [] \<and> prefix sep (c # cs)
      then cur # split_from sep [] (drop (length sep) (c # cs))
      else split_from sep (cur @ [c]) cs)"
  by pat_completeness auto
termination
  by (relation "measure (\<lambda>(sep, cur, s). length s)") auto

definition py_split :: "pystr \<Rightarrow> pystr \<Rightarrow> pystr list" where
  "py_split s sep = split_from sep [] s"

text \<open>\<^verbatim>\<open>s.strip()\<close> removes the characters for which \<^verbatim>\<open>str.isspace\<close> holds from both
  ends: U+0009..U+000D, U+001C..U+0020, U+0085, U+00A0, U+1680, U+2000..U+200A, U+2028, U+2029,
  U+202F, U+205F and U+3000.\<close>

definition py_isspace :: "nat \<Rightarrow> bool" where
  "py_isspace c =
     ((9 \<le> c \<and> c \<le> 13) \<or> (28 \<le> c \<and> c \<le> 32) \<or> c = 133 \<or> c = 160 \<or> c = 5760 \<or>
      (8192 \<le> c \<and> c \<le> 8202) \<or> c = 8232 \<or> c = 8233 \<or> c = 8239 \<or> c = 8287 \<or> c = 12288)"

definition py_strip :: "pystr \<Rightarrow> pystr" where
  "py_strip s = rev (dropWhile py_isspace (rev (dropWhile py_isspace s)))"

section \<open>Decoded values and exceptions\<close>

datatype json =
    JNull
  | JBool bool
  | JInt int
  | JFloat pystr
  | JStr pystr
  | JArr "json list"
  | JObj "(pystr \<times> json) list"

datatype py_exception =
    JSONDecodeError
  | TypeError
  | AttributeError
  | OSError
  | KeyError
  | OtherError pystr

section \<open>The decoder \<^verbatim>\<open>json.loads\<close>\<close>

definition is_ws :: "nat \<Rightarrow> bool" where
  "is_ws c = (c = 32 \<or> c = 9 \<or> c = 10 \<or> c = 13)"

definition skip_ws :: "pystr \<Rightarrow> pystr" where
  "skip_ws s = dropWhile is_ws s"

definition is_digit :: "nat \<Rightarrow> bool" where
  "is_digit c = (48 \<le> c \<and> c \<le> 57)"

definition hexdigit :: "nat \<Rightarrow> nat option" where
  "hexdigit c =
     (if 48 \<le> c \<and> c \<le> 57 then Some (c - 48)
      else if 97 \<le> c \<and> c \<le> 102 then Some (c - 87)
      else if 65 \<le> c \<and> c \<le> 70 then Some (c - 55)
      else None)"

fun hex4 :: "pystr \<Rightarrow> nat option" where
  "hex4 [a, b, c, d] =
     (case (hexdigit a, hexdigit b, hexdigit c, hexdigit d) of
        (Some w, Some x, Some y, Some z) \<Rightarrow> Some (4096 * w + 256 * x + 16 * y + z)
      | _ \<Rightarrow> None)"
| "hex4 _ = None"

definition escape_char :: "nat \<Rightarrow> nat option" where
  "escape_char e =
     (if e = cp CHR 0x22 then Some 34
      else if e = cp CHR 0x5C then Some 92
      else if e = cp CHR ''/'' then Some 47
      else if e = cp CHR ''b'' then Some 8
      else if e = cp CHR ''f'' then Some 12
      else if e = cp CHR ''n'' then Some 10
      else if e = cp CHR ''r'' then Some 13
      else if e = cp CHR ''t'' then Some 9
      else None)"

definition low_surrogate_after :: "pystr \<Rightarrow> nat option" where
  "low_surrogate_after r =
     (if take 2 r = [92, 117] then
        (case hex4 (take 4 (drop 2 r)) of
           Some lo \<Rightarrow> if 0xDC00 \<le> lo \<and> lo \<le> 0xDFFF then Some lo else None
         | None \<Rightarrow> None)
      else None)"

function scanstring :: "pystr \<Rightarrow> pystr \<Rightarrow> (pystr \<times> pystr) option" where
  "scanstring [] acc = None"
| "scanstring (c # cs) acc =
     (if c = 34 then Some (acc, cs)
      else if c = 92 then
        (case cs of
           [] \<Rightarrow> None
         | e # r \<Rightarrow>
             if e = 117 then
               (case hex4 (take 4 r) of
                  None \<Rightarrow> None
                | Some uni \<Rightarrow>
                    (case (if 0xD800 \<le> uni \<and> uni \<le> 0xDBFF
                           then low_surrogate_after (drop 4 r) else None) of
                       Some lo \<Rightarrow>
                         scanstring (drop 10 r)
                           (acc @ [0x10000 + (uni - 0xD800) * 1024 + (lo - 0xDC00)])
                     | None \<Rightarrow> scanstring (drop 4 r) (acc @ [uni])))
             else
               (case escape_char e of
                  None \<Rightarrow> None
                | Some ch \<Rightarrow> scanstring r (acc @ [ch])))
      else if c < 32 then None
      else scanstring cs (acc @ [c]))"
  by pat_completeness auto
termination
  by (relation "measure (\<lambda>(s, acc). length s)") auto

definition digits_value :: "pystr \<Rightarrow> nat" where
  "digits_value ds = foldl (\<lambda>a d. 10 * a + (d - 48)) 0 ds"

definition exponent_part :: "pystr \<Rightarrow> pystr" where
  "exponent_part s =
     (case s of
        [] \<Rightarrow> []
      | e # r \<Rightarrow>
          if e = 101 \<or> e = 69 then
            (let sg = (case r of [] \<Rightarrow> [] | c # _ \<Rightarrow> if c = 43 \<or> c = 45 then [c] else []);
                 ds = takeWhile is_digit (drop (length sg) r)
             in if ds = [] then [] else e # sg @ ds)
          else [])"

definition fraction_part :: "pystr \<Rightarrow> pystr" where
  "fraction_part s =
     (case s of
        [] \<Rightarrow> []
      | c # r \<Rightarrow>
          if c = 46 \<and> takeWhile is_digit r \<noteq> [] then c # takeWhile is_digit r else [])"

definition match_number :: "pystr \<Rightarrow> (json \<times> pystr) option" where
  "match_number s =
     (let sign = (case s of [] \<Rightarrow> [] | c # _ \<Rightarrow> if c = 45 then [c] else []);
          s1 = drop (length sign) s;
          ds = takeWhile is_digit s1
      in if ds = [] then None
         else
           (let ip = (if hd ds = 48 then [48] else ds);
                s2 = drop (length ip) s1;
                frac = fraction_part s2;
                s3 = drop (length frac) s2;
                ex = exponent_part s3;
                s4 = drop (length ex) s3
            in if frac = [] \<and> ex = []
               then Some (JInt ((if sign = [] then 1 else -1) * int (digits_value ip)), s4)
               else Some (JFloat (sign @ ip @ frac @ ex), s4)))"

function (sequential) scan_once :: "pystr \<Rightarrow> (json \<times> pystr) option"
  and parse_object :: "pystr \<Rightarrow> (pystr \<times> json) list \<Rightarrow> ((pystr \<times> json) list \<times> pystr) option"
  and parse_array :: "pystr \<Rightarrow> json list \<Rightarrow> (json list \<times> pystr) option"
where
  "scan_once [] = None"
| "scan_once (c # cs) =
     (if c = 34 then
        (case scanstring cs [] of
           None \<Rightarrow> None
         | Some (s, r) \<Rightarrow> Some (JStr s, r))
      else if c = 123 then
        (case skip_ws cs of
           [] \<Rightarrow> None
         | d # r \<Rightarrow>
             if d = 125 then Some (JObj [], r)
             else (case parse_object (d # r) [] of
                     None \<Rightarrow> None
                   | Some (kvs, r') \<Rightarrow> Some (JObj kvs, r')))
      else if c = 91 then
        (case skip_ws cs of
           [] \<Rightarrow> None
         | d # r \<Rightarrow>
             if d = 93 then Some (JArr [], r)
             else (case parse_array (d # r) [] of
                     None \<Rightarrow> None
                   | Some (vs, r') \<Rightarrow> Some (JArr vs, r')))
      else if prefix (lit ''null'') (c # cs) then Some (JNull, drop 4 (c # cs))
      else if prefix (lit ''true'') (c # cs) then Some (JBool True, drop 4 (c # cs))
      else if prefix (lit ''false'') (c # cs) then Some (JBool False, drop 5 (c # cs))
      else if prefix (lit ''NaN'') (c # cs) then Some (JFloat (lit ''NaN''), drop 3 (c # cs))
      else if prefix (lit ''Infinity'') (c # cs)
        then Some (JFloat (lit ''Infinity''), drop 8 (c # cs))
      else if prefix (lit ''-Infinity'') (c # cs)
        then Some (JFloat (lit ''-Infinity''), drop 9 (c # cs))
      else match_number (c # cs))"
| "parse_object s kvs =
     (case s of
        [] \<Rightarrow> None
      | q # r \<Rightarrow>
          if q \<noteq> 34 then None
          else
            (case scanstring r [] of
               None \<Rightarrow> None
             | Some (key, r1) \<Rightarrow>
                 (case skip_ws r1 of
                    [] \<Rightarrow> None
                  | col # r2 \<Rightarrow>
                      if col \<noteq> 58 then None
                      else if \<not> length (skip_ws r2) < length s then None
                      else
                        (case scan_once (skip_ws r2) of
                           None \<Rightarrow> None
                         | Some (v, r3) \<Rightarrow>
                             (case skip_ws r3 of
                                [] \<Rightarrow> None
                              | e # r4 \<Rightarrow>
                                  if e = 125 then Some (AList.update key v kvs, r4)
                                  else if e \<noteq> 44 then None
                                  else if \<not> length (skip_ws r4) < length s then None
                                  else parse_object (skip_ws r4) (AList.update key v kvs))))))"
| "parse_array s vs =
     (case scan_once s of
        None \<Rightarrow> None
      | Some (v, r) \<Rightarrow>
          (case skip_ws r of
             [] \<Rightarrow> None
           | e # r1 \<Rightarrow>
               if e = 93 then Some (vs @ [v], r1)
               else if e \<noteq> 44 then None
               else if \<not> length (skip_ws r1) < length s then None
               else parse_array (skip_ws r1) (vs @ [v])))"
  by pat_completeness auto
termination
proof -
  have shorter: "Suc (length xs) \<le> length cs" if "dropWhile is_ws cs = x # xs" for cs x xs
    using length_dropWhile_le[of is_ws cs] that by simp
  show ?thesis
    by (relation "measure (\<lambda>x. case x of
            Inl s \<Rightarrow> 2 * length s
          | Inr (Inl (s, kvs)) \<Rightarrow> 2 * length s + 1
          | Inr (Inr (s, vs)) \<Rightarrow> 2 * length s + 1)")
      (auto simp: skip_ws_def dest!: shorter)
qed

definition json_loads :: "pystr \<Rightarrow> py_exception + json" where
  "json_loads s =
     (if prefix [0xFEFF] s then Inl JSONDecodeError
      else
        (case scan_once (skip_ws s) of
           None \<Rightarrow> Inl JSONDecodeError
         | Some (v, r) \<Rightarrow> if skip_ws r = [] then Inr v else Inl JSONDecodeError))"

section \<open>The Streamlit page, the file system and exceptions in flight\<close>

text \<open>A message of the page is the list of the pieces its f-string joins: literal text,
  a string, a decoded value, the text of an exception, a size in bytes shown in megabytes,
  or an integer. Each \<^verbatim>\<open>st.*\<close> call of the source appends one \<open>st_call\<close> to the page.\<close>

datatype frag =
    Lit string
  | Str pystr
  | Val json
  | Exn py_exception
  | MB nat
  | Num int

datatype st_call =
    StError "frag list"
  | StWarning "frag list"
  | StInfo "frag list"
  | StSuccess "frag list"
  | StWrite "frag list"
  | StHeader "frag list"
  | StSubheader "frag list"
  | StText "frag list"
  | StExpander "frag list"

type_synonym byte = "8 word"

datatype node = File "byte list" | Dir

record world =
  fs :: "(pystr \<times> node) list"
  page :: "st_call list"

text \<open>A statement that may raise: it returns the exception or a value, and the world it
  leaves behind in both cases.\<close>

type_synonym 'a io = "world \<Rightarrow> (py_exception + 'a) \<times> world"

definition io_ret :: "'a \<Rightarrow> 'a io" where
  "io_ret x w = (Inr x, w)"

definition io_of :: "py_exception + 'a \<Rightarrow> 'a io" where
  "io_of r w = (r, w)"

definition io_bind :: "'a io \<Rightarrow> ('a \<Rightarrow> 'b io) \<Rightarrow> 'b io" where
  "io_bind m f w = (case m w of (Inl e, w') \<Rightarrow> (Inl e, w') | (Inr x, w') \<Rightarrow> f x w')"

definition io_seq :: "unit io list \<Rightarrow> unit io" where
  "io_seq ms = foldr (\<lambda>m k. io_bind m (\<lambda>_. k)) ms (io_ret ())"

definition io_try :: "'a io \<Rightarrow> (py_exception \<Rightarrow> 'a io) \<Rightarrow> 'a io" where
  "io_try m h w = (case m w of (Inl e, w') \<Rightarrow> h e w' | (Inr x, w') \<Rightarrow> (Inr x, w'))"

definition exn_bind :: "py_exception + 'a \<Rightarrow> ('a \<Rightarrow> py_exception + 'b) \<Rightarrow> py_exception + 'b" where
  "exn_bind r f = (case r of Inl e \<Rightarrow> Inl e | Inr x \<Rightarrow> f x)"

definition st_add :: "st_call \<Rightarrow> world \<Rightarrow> world" where
  "st_add c w = w\<lparr>page := page w @ [c]\<rparr>"

definition st :: "st_call \<Rightarrow> unit io" where
  "st c w = (Inr (), st_add c w)"

subsection \<open>Files\<close>

text \<open>\<^verbatim>\<open>os.path.exists\<close>, \<^verbatim>\<open>os.path.getsize\<close>, \<^verbatim>\<open>os.remove\<close>, \<^verbatim>\<open>os.rmdir\<close>, \<^verbatim>\<open>open\<close> and
  \<^verbatim>\<open>tempfile.mkdtemp\<close>. Removing a file that is there succeeds; a directory is removed
  only when no path of the file system lies under it. \<^verbatim>\<open>mkdtemp\<close> makes a directory under
  a name that no path of the file system has.\<close>

definition path_exists :: "world \<Rightarrow> pystr \<Rightarrow> bool" where
  "path_exists w p = (map_of (fs w) p \<noteq> None)"

definition getsize :: "world \<Rightarrow> pystr \<Rightarrow> py_exception + nat" where
  "getsize w p =
     (case map_of (fs w) p of
        Some (File b) \<Rightarrow> Inr (length b)
      | Some Dir \<Rightarrow> Inr 4096
      | None \<Rightarrow> Inl OSError)"

definition os_remove :: "pystr \<Rightarrow> unit io" where
  "os_remove p w =
     (case map_of (fs w) p of
        Some (File b) \<Rightarrow> (Inr (), w\<lparr>fs := AList.delete p (fs w)\<rparr>)
      | _ \<Rightarrow> (Inl OSError, w))"

definition under_dir :: "pystr \<Rightarrow> pystr \<Rightarrow> bool" where
  "under_dir d p = prefix (d @ lit ''/'') p"

definition os_rmdir :: "pystr \<Rightarrow> unit io" where
  "os_rmdir d w =
     (case map_of (fs w) d of
        Some Dir \<Rightarrow>
          if list_ex (\<lambda>(p, n). under_dir d p) (fs w) then (Inl OSError, w)
          else (Inr (), w\<lparr>fs := AList.delete d (fs w)\<rparr>)
      | _ \<Rightarrow> (Inl OSError, w))"

definition open_read :: "pystr \<Rightarrow> byte list io" where
  "open_read p w =
     (case map_of (fs w) p of
        Some (File b) \<Rightarrow> (Inr b, w)
      | _ \<Rightarrow> (Inl OSError, w))"

definition open_write :: "pystr \<Rightarrow> byte list \<Rightarrow> unit io" where
  "open_write p b w =
     (case map_of (fs w) p of
        Some Dir \<Rightarrow> (Inl OSError, w)
      | _ \<Rightarrow> (Inr (), w\<lparr>fs := AList.update p (File b) (fs w)\<rparr>))"

definition fresh_tmp_name :: "(pystr \<times> node) list \<Rightarrow> pystr" where
  "fresh_tmp_name f =
     lit ''/tmp/tmp'' @ replicate (Suc (foldr (\<lambda>(p, n) m. max (length p) m) f 0)) (cp CHR ''x'')"

definition mkdtemp :: "world \<Rightarrow> pystr \<times> world" where
  "mkdtemp w =
     (let d = fresh_tmp_name (fs w) in (d, w\<lparr>fs := AList.update d Dir (fs w)\<rparr>))"

text \<open>\<^verbatim>\<open>os.path.join(d, name)\<close> for a plain file name (one that is not empty and has no
  \<^verbatim>\<open>/\<close>), which is what the upload widget hands over.\<close>

definition path_join :: "pystr \<Rightarrow> pystr \<Rightarrow> pystr" where
  "path_join d name = d @ lit ''/'' @ name"

section \<open>Truth values, comparisons and the other operations on decoded values\<close>

text \<open>What Python does with a float is not modelled: a \<open>JFloat\<close> keeps the literal, and
  the two tests the source makes on a float (is it zero, is it at least an integer) are
  parameters.\<close>

record float_ops =
  float_is_zero :: "pystr \<Rightarrow> bool"
  float_ge :: "pystr \<Rightarrow> int \<Rightarrow> bool"

fun truthy :: "float_ops \<Rightarrow> json \<Rightarrow> bool" where
  "truthy fl JNull = False"
| "truthy fl (JBool b) = b"
| "truthy fl (JInt n) = (n \<noteq> 0)"
| "truthy fl (JFloat x) = (\<not> float_is_zero fl x)"
| "truthy fl (JStr s) = (s \<noteq> [])"
| "truthy fl (JArr xs) = (xs \<noteq> [])"
| "truthy fl (JObj kvs) = (kvs \<noteq> [])"

text \<open>\<^verbatim>\<open>d.get(k, default)\<close> and \<^verbatim>\<open>d[k]\<close>; only a \<^verbatim>\<open>dict\<close> has \<^verbatim>\<open>get\<close>.\<close>

fun dict_get :: "json \<Rightarrow> pystr \<Rightarrow> json \<Rightarrow> py_exception + json" where
  "dict_get (JObj kvs) k dflt = Inr (case map_of kvs k of Some v \<Rightarrow> v | None \<Rightarrow> dflt)"
| "dict_get _ k dflt = Inl AttributeError"

fun dict_item :: "json \<Rightarrow> pystr \<Rightarrow> py_exception + json" where
  "dict_item (JObj kvs) k = (case map_of kvs k of Some v \<Rightarrow> Inr v | None \<Rightarrow> Inl KeyError)"
| "dict_item _ k = Inl TypeError"

text \<open>\<^verbatim>\<open>x >= k\<close> for an integer \<open>k\<close>: defined on numbers (a \<^verbatim>\<open>bool\<close> is an \<^verbatim>\<open>int\<close>), a
  \<^verbatim>\<open>TypeError\<close> on everything else.\<close>

fun py_ge :: "float_ops \<Rightarrow> json \<Rightarrow> int \<Rightarrow> py_exception + bool" where
  "py_ge fl (JInt n) k = Inr (k \<le> n)"
| "py_ge fl (JBool b) k = Inr (k \<le> (if b then 1 else 0))"
| "py_ge fl (JFloat x) k = Inr (float_ge fl x k)"
| "py_ge fl _ k = Inl TypeError"

text \<open>\<^verbatim>\<open>for x in v\<close>: the items of a list, the characters of a string, the keys of a
  \<^verbatim>\<open>dict\<close>; nothing else that \<^verbatim>\<open>json.loads\<close> returns can be iterated.\<close>

fun py_iter :: "json \<Rightarrow> py_exception + json list" where
  "py_iter (JArr xs) = Inr xs"
| "py_iter (JStr s) = Inr (map (\<lambda>c. JStr [c]) s)"
| "py_iter (JObj kvs) = Inr (map (\<lambda>(k, v). JStr k) kvs)"
| "py_iter _ = Inl TypeError"

text \<open>\<^verbatim>\<open>s.lower()\<close> and \<^verbatim>\<open>s.upper()\<close> on the ASCII letters; code points outside ASCII are
  left as they are (Python maps the cased ones among them too). Only a \<^verbatim>\<open>str\<close> has
  \<^verbatim>\<open>lower\<close>.\<close>

definition lower_cp :: "nat \<Rightarrow> nat" where
  "lower_cp c = (if 65 \<le> c \<and> c \<le> 90 then c + 32 else c)"

definition upper_cp :: "nat \<Rightarrow> nat" where
  "upper_cp c = (if 97 \<le> c \<and> c \<le> 122 then c - 32 else c)"

fun str_lower :: "json \<Rightarrow> py_exception + pystr" where
  "str_lower (JStr s) = Inr (map lower_cp s)"
| "str_lower _ = Inl AttributeError"

section \<open>The reply parser: from the raw text to the text handed to the decoder\<close>

text \<open>Lines 151 to 154 of \<^verbatim>\<open>parse_gemini_response\<close>: the inner text of the first fenced
  block, a block tagged \<^verbatim>\<open>json\<close> first. Both indexed reads are in range, see
  \<open>split_second_in_range\<close> and \<open>split_nonempty\<close> below.\<close>

definition strip_fences :: "pystr \<Rightarrow> pystr" where
  "strip_fences response_text =
     (if py_contains (lit ''```json'') response_text
      then py_split (py_split response_text (lit ''```json'') ! 1) (lit ''```'') ! 0
      else if py_contains (lit ''```'') response_text
      then py_split (py_split response_text (lit ''```'') ! 1) (lit ''```'') ! 0
      else response_text)"

text \<open>Line 157: the working text, the value of the variable \<^verbatim>\<open>response_text\<close> from there on.\<close>

definition working_text :: "pystr \<Rightarrow> pystr" where
  "working_text raw = py_strip (strip_fences raw)"

text \<open>Lines 160 to 168: the text that is handed to \<^verbatim>\<open>json.loads\<close>.\<close>

definition json_candidate :: "pystr \<Rightarrow> pystr" where
  "json_candidate response_text =
     (let start_idx = py_find response_text (lit ''{'');
          end_idx = py_rfind response_text (lit ''}'') + 1
      in if start_idx \<noteq> -1 \<and> end_idx \<noteq> -1
         then py_slice response_text start_idx end_idx
         else response_text)"

text \<open>\<^verbatim>\<open>parse_gemini_response\<close> (lines 147 to 173). The function returns what the decoder
  returns; when the decoder raises, it reports twice on the page and returns \<^verbatim>\<open>None\<close>. The
  second report shows \<^verbatim>\<open>response_text[:500]\<close>, and \<^verbatim>\<open>response_text\<close> is by then the working
  text.\<close>

definition parse_gemini_response :: "pystr \<Rightarrow> world \<Rightarrow> json \<times> world" where
  "parse_gemini_response raw w =
     (let response_text = working_text raw in
      case json_loads (json_candidate response_text) of
        Inr v \<Rightarrow> (v, w)
      | Inl e \<Rightarrow>
          (JNull,
           st_add (StError [Lit ''Raw response: '', Str (py_slice response_text 0 500), Lit ''...''])
             (st_add (StError [Lit ''Failed to parse JSON response: '', Exn e]) w)))"

text \<open>The two reports of a parse failure with the excerpt \<open>x\<close>.\<close>

definition parse_failure_reports :: "pystr \<Rightarrow> st_call list" where
  "parse_failure_reports x =
     [StError [Lit ''Failed to parse JSON response: '', Exn JSONDecodeError],
      StError [Lit ''Raw response: '', Str x, Lit ''...'']]"

section \<open>Rendering the decoded result\<close>

text \<open>One of the four list blocks of \<^verbatim>\<open>display_analysis_results\<close> (lines 201 to 204, 206 to
  209, 212 to 215 and 227 to 230), which differ in the key and the heading only.\<close>

definition show_list :: "float_ops \<Rightarrow> json \<Rightarrow> string \<Rightarrow> string \<Rightarrow> unit io" where
  "show_list fl analysis_result key heading =
     io_bind (io_of (dict_get analysis_result (lit key) JNull)) (\<lambda>v.
       if truthy fl v then
         io_seq
           [st (StSubheader [Lit heading]),
            io_bind (io_of (dict_item analysis_result (lit key))) (\<lambda>items.
            io_bind (io_of (py_iter items)) (\<lambda>xs.
              io_seq (map (\<lambda>x. st (StWrite [Lit ''- '', Val x])) xs)))]
       else io_ret ())"

text \<open>Lines 182 to 188.\<close>

definition show_score :: "float_ops \<Rightarrow> json \<Rightarrow> unit io" where
  "show_score fl analysis_result =
     io_bind (io_of (dict_get analysis_result (lit ''relevance_score'') (JInt 0))) (\<lambda>score.
     io_bind (io_of (py_ge fl score 80)) (\<lambda>high.
       if high then st (StSuccess [Lit '' Highly Relevant - Score: '', Val score, Lit ''/100''])
       else
         io_bind (io_of (py_ge fl score 50)) (\<lambda>mid.
           if mid then st (StWarning [Lit '' Moderately Relevant - Score: '', Val score, Lit ''/100''])
           else st (StInfo [Lit '' Low Relevance - Score: '', Val score, Lit ''/100'']))))"

text \<open>Lines 218 to 224.\<close>

definition show_risk :: "json \<Rightarrow> unit io" where
  "show_risk analysis_result =
     io_bind (io_of (dict_get analysis_result (lit ''risk_assessment'') (JStr (lit ''unknown'')))) (\<lambda>r.
     io_bind (io_of (str_lower r)) (\<lambda>risk.
       if risk = lit ''high'' then st (StError [Lit '' Risk Level: '', Str (map upper_cp risk)])
       else if risk = lit ''medium'' then st (StWarning [Lit '' Risk Level: '', Str (map upper_cp risk)])
       else st (StSuccess [Lit '' Risk Level: '', Str (map upper_cp risk)])))"

text \<open>\<^verbatim>\<open>display_analysis_results\<close> (lines 175 to 230).\<close>

definition display_analysis_results :: "float_ops \<Rightarrow> json \<Rightarrow> unit io" where
  "display_analysis_results fl analysis_result =
     (if \<not> truthy fl analysis_result then st (StError [Lit ''No analysis results to display''])
      else
        io_seq
          [show_score fl analysis_result,
           io_bind (io_of (dict_get analysis_result (lit ''content_summary'') JNull)) (\<lambda>c.
             if truthy fl c then
               io_bind (io_of (dict_item analysis_result (lit ''content_summary''))) (\<lambda>v.
                 st (StWrite [Lit ''Content: '', Val v]))
             else io_ret ()),
           io_bind (io_of (dict_get analysis_result (lit ''summary'')
                             (JStr (lit ''No summary available'')))) (\<lambda>s.
             st (StWrite [Lit ''Relevance: '', Val s])),
           show_list fl analysis_result ''specific_matches'' '' Matching Investments'',
           show_list fl analysis_result ''key_insights'' '' Key Insights'',
           show_list fl analysis_result ''action_items'' '' Suggested Actions'',
           show_risk analysis_result,
           show_list fl analysis_result ''visual_elements'' '' Visual Elements''])"

section \<open>Metadata and acquisition\<close>

text \<open>\<^verbatim>\<open>get_video_info_basic\<close> (lines 16 to 34). \<open>extract_info\<close> stands for the provider's
  \<^verbatim>\<open>ydl.extract_info(url, download=False)\<close>: it raises or returns the metadata.\<close>

record video_info =
  info_title :: json
  info_duration :: json
  info_url :: pystr
  info_platform :: pystr

definition get_video_info_basic ::
  "(pystr \<Rightarrow> py_exception + json) \<Rightarrow> pystr \<Rightarrow> world \<Rightarrow> video_info \<times> world" where
  "get_video_info_basic extract_info url w =
     (case exn_bind (extract_info url) (\<lambda>info.
             exn_bind (dict_get info (lit ''title'') (JStr (lit ''Unknown''))) (\<lambda>t.
             exn_bind (dict_get info (lit ''duration'') (JInt 0)) (\<lambda>d.
               Inr \<lparr>info_title = t, info_duration = d, info_url = url,
                    info_platform =
                      (if py_contains (lit ''youtube.com'') url \<or> py_contains (lit ''youtu.be'') url
                       then lit ''YouTube'' else lit ''Other'')\<rparr>))) of
        Inr r \<Rightarrow> (r, w)
      | Inl e \<Rightarrow>
          (\<lparr>info_title = JStr (lit ''Unknown''), info_duration = JInt 0, info_url = url,
            info_platform = lit ''Unknown''\<rparr>,
           st_add (StError [Lit ''Error extracting video info: '', Exn e]) w))"

text \<open>The provider's download, \<^verbatim>\<open>ydl.extract_info(url, download=True)\<close> followed by
  \<^verbatim>\<open>ydl.prepare_filename(info)\<close>: given the URL, the directory of the output template and
  the size of the format filter, it writes files and then raises or returns the path it
  names for the result.\<close>

record ydl_result =
  ydl_written :: "(pystr \<times> byte list) list"
  ydl_outcome :: "py_exception + pystr"

type_synonym downloader = "pystr \<Rightarrow> pystr \<Rightarrow> int \<Rightarrow> ydl_result"

definition run_download :: "downloader \<Rightarrow> pystr \<Rightarrow> pystr \<Rightarrow> int \<Rightarrow> pystr io" where
  "run_download ydl url temp_dir max_size_mb w =
     (let r = ydl url temp_dir max_size_mb in
      (ydl_outcome r,
       w\<lparr>fs := foldl (\<lambda>f (p, b). AList.update p (File b) f) (fs w) (ydl_written r)\<rparr>))"

text \<open>\<^verbatim>\<open>download_video_for_gemini\<close> (lines 36 to 67). The source divides the size in bytes
  by \<open>1024 * 1024\<close> and compares the quotient with \<^verbatim>\<open>max_size_mb\<close>; the model compares the
  size with \<open>max_size_mb * 1048576\<close>, which is the same test for every size below \<open>2 ^ 53\<close>
  bytes.\<close>

definition download_video_for_gemini ::
  "downloader \<Rightarrow> pystr \<Rightarrow> int \<Rightarrow> world \<Rightarrow> pystr option \<times> world" where
  "download_video_for_gemini ydl url max_size_mb w =
     (let (temp_dir, w1) = mkdtemp w in
      case io_bind (run_download ydl url temp_dir max_size_mb) (\<lambda>video_path w2.
             if path_exists w2 video_path then
               io_bind (io_of (getsize w2 video_path)) (\<lambda>size.
                 if max_size_mb * 1048576 < int size then
                   io_bind (st (StWarning [Lit ''Video is '', MB size, Lit ''MB (over '',
                                  Num max_size_mb, Lit ''MB limit). Using YouTube URL directly.'']))
                     (\<lambda>_. io_bind (os_remove video_path) (\<lambda>_. io_ret None))
                 else io_ret (Some video_path)) w2
             else
               io_bind (st (StError [Lit ''Failed to download video file'']))
                 (\<lambda>_. io_ret None) w2) w1 of
        (Inr r, w3) \<Rightarrow> (r, w3)
      | (Inl e, w3) \<Rightarrow> (None, st_add (StError [Lit ''Error downloading video: '', Exn e]) w3))"

section \<open>The request to the analysis service\<close>

text \<open>The request that \<^verbatim>\<open>analyze_video_with_gemini\<close> hands to
  \<^verbatim>\<open>client.models.generate_content\<close> (lines 108 to 139). The prompt is a function of the
  portfolio alone and is kept as the portfolio itself.\<close>

datatype 'p part =
    FileData pystr
  | InlineData "byte list" pystr
  | TextPart 'p

record 'p request =
  req_model :: pystr
  req_parts :: "'p part list"

definition gemini_request :: "pystr \<Rightarrow> 'p \<Rightarrow> bool \<Rightarrow> 'p request io" where
  "gemini_request video_source user_investments is_youtube_url =
     (if is_youtube_url then
        io_ret \<lparr>req_model = lit ''models/gemini-2.5-flash'',
                req_parts = [FileData video_source, TextPart user_investments]\<rparr>
      else
        io_bind (open_read video_source) (\<lambda>video_bytes.
          io_ret \<lparr>req_model = lit ''models/gemini-2.5-flash'',
                  req_parts = [InlineData video_bytes (lit ''video/mp4''),
                               TextPart user_investments]\<rparr>))"

text \<open>\<^verbatim>\<open>analyze_video_with_gemini\<close> (lines 69 to 145). \<open>client\<close> stands for the service: it
  raises or returns \<^verbatim>\<open>response.text\<close>, which is a string or \<^verbatim>\<open>None\<close>.\<close>

definition analyze_video_with_gemini ::
  "('p request \<Rightarrow> py_exception + pystr option) \<Rightarrow> pystr \<Rightarrow> 'p \<Rightarrow> bool \<Rightarrow>
     world \<Rightarrow> pystr option \<times> world" where
  "analyze_video_with_gemini client video_source user_investments is_youtube_url w =
     (case io_bind (gemini_request video_source user_investments is_youtube_url)
             (\<lambda>req. io_of (client req)) w of
        (Inr response_text, w') \<Rightarrow> (response_text, w')
      | (Inl e, w') \<Rightarrow>
          (None, st_add (StError [Lit ''Error analyzing video with Gemini: '', Exn e]) w'))"

text \<open>The words of the specification for "the first \<^verbatim>\<open>{\<close>" and "the last \<^verbatim>\<open>}\<close>" of a
  text: \<open>i\<close> is the first index at which \<open>c\<close> stands, \<open>j\<close> the last one.\<close>

definition is_first :: "nat \<Rightarrow> pystr \<Rightarrow> nat \<Rightarrow> bool" where
  "is_first c t i = (i < length t \<and> t ! i = c \<and> c \<notin> set (take i t))"

definition is_last :: "nat \<Rightarrow> pystr \<Rightarrow> nat \<Rightarrow> bool" where
  "is_last c t j = (j < length t \<and> t ! j = c \<and> c \<notin> set (drop (Suc j) t))"

chapter \<open>Properties\<close>

section \<open>Strings\<close>

lemma cp_braces: "cp CHR ''{'' = 123" "cp CHR ''}'' = 125"
  by (simp_all add: cp_def)

lemma lit_lbrace: "lit ''{'' = [123]"
  by (simp add: lit_def cp_def)

lemma lit_rbrace: "lit ''}'' = [125]"
  by (simp add: lit_def cp_def)

lemma find_from_absent: "c \<notin> set s \<Longrightarrow> find_from [c] s i = -1"
  by (induction s arbitrary: i) auto

lemma find_from_first: "is_first c s i \<Longrightarrow> find_from [c] s k = int (k + i)"
proof (induction s arbitrary: i k)
  case Nil
  then show ?case by (simp add: is_first_def)
next
  case (Cons x xs)
  show ?case
  proof (cases i)
    case 0
    with Cons.prems show ?thesis by (simp add: is_first_def)
  next
    case (Suc i')
    with Cons.prems have "x \<noteq> c" and "is_first c xs i'"
      by (auto simp: is_first_def)
    with Cons.IH[of i' "Suc k"] Suc show ?thesis by simp
  qed
qed

lemma rfind_from_absent: "c \<notin> set s \<Longrightarrow> rfind_from [c] s i best = best"
  by (induction s arbitrary: i best) auto

lemma rfind_from_last: "is_last c s j \<Longrightarrow> rfind_from [c] s k best = int (k + j)"
proof (induction s arbitrary: j k best)
  case Nil
  then show ?case by (simp add: is_last_def)
next
  case (Cons x xs)
  show ?case
  proof (cases j)
    case 0
    with Cons.prems show ?thesis by (simp add: is_last_def rfind_from_absent)
  next
    case (Suc j')
    with Cons.prems have "is_last c xs j'"
      by (auto simp: is_last_def)
    with Cons.IH[of j' "Suc k"] Suc show ?thesis by simp
  qed
qed

lemma py_slice_nat:
  "lo \<le> length s \<Longrightarrow> hi \<le> length s \<Longrightarrow>
     py_slice s (int lo) (int hi) = take (hi - lo) (drop lo s)"
  by (simp add: py_slice_def Let_def min_def nat_diff_distrib')

section \<open>The text handed to the decoder\<close>

lemma candidate_without_lbrace: "123 \<notin> set t \<Longrightarrow> json_candidate t = t"
  by (simp add: json_candidate_def py_find_def lit_lbrace find_from_absent)

lemma candidate_with_braces:
  assumes "is_first 123 t i" and "is_last 125 t j"
  shows "json_candidate t = take (Suc j - i) (drop i t)"
proof -
  from assms have f: "py_find t (lit ''{'') = int i" and r: "py_rfind t (lit ''}'') = int j"
    using find_from_first[of 123 t i 0] rfind_from_last[of 125 t j 0 "-1"]
    by (simp_all add: py_find_def py_rfind_def lit_lbrace lit_rbrace)
  from assms have "i \<le> length t" and "Suc j \<le> length t"
    by (simp_all add: is_first_def is_last_def)
  then have "py_slice t (int i) (int (Suc j)) = take (Suc j - i) (drop i t)"
    by (rule py_slice_nat)
  with f r show ?thesis
    by (simp add: json_candidate_def Let_def add.commute)
qed

text \<open>
  \<^bold>\<open>Claim C1\<close>, as the code has it. The parser looks for the first \<^verbatim>\<open>{\<close> and the last \<^verbatim>\<open>}\<close> of
  the working text. When the text has no \<^verbatim>\<open>{\<close>, the text handed to the decoder is the whole
  working text. When the first \<^verbatim>\<open>{\<close> stands before the last \<^verbatim>\<open>}\<close>, it is the substring from
  the one to the other, both included. When the last \<^verbatim>\<open>}\<close> stands before the first \<^verbatim>\<open>{\<close>, it
  is the empty text (and not the whole working text, as the claim has it). The case of a
  text with a \<^verbatim>\<open>{\<close> and no \<^verbatim>\<open>}\<close> is left out of the statement.
\<close>

theorem json_candidate_cases:
  "(cp CHR ''{'' \<notin> set t \<longrightarrow> json_candidate t = t) \<and>
   (\<forall>i j. is_first (cp CHR ''{'') t i \<and> is_last (cp CHR ''}'') t j \<and> i < j \<longrightarrow>
      json_candidate t = take (Suc (j - i)) (drop i t)) \<and>
   (\<forall>i j. is_first (cp CHR ''{'') t i \<and> is_last (cp CHR ''}'') t j \<and> j < i \<longrightarrow>
      json_candidate t = [])"
  unfolding cp_braces
  by (auto simp: candidate_without_lbrace candidate_with_braces Suc_diff_le)

text \<open>The three cases at \<^verbatim>\<open>abc\<close>, \<^verbatim>\<open>x{y}z\<close> and \<^verbatim>\<open>}{\<close>.\<close>

theorem json_candidate_cases_witness:
  "json_candidate (lit ''abc'') = lit ''abc'' \<and>
   json_candidate (lit ''x{y}z'') = lit ''{y}'' \<and>
   json_candidate (lit ''}{'') = []"
proof -
  have a: "cp CHR ''{'' \<notin> set (lit ''abc'')"
    by (simp add: lit_def cp_def)
  have b: "is_first (cp CHR ''{'') (lit ''x{y}z'') 1 \<and>
           is_last (cp CHR ''}'') (lit ''x{y}z'') 3 \<and> (1::nat) < 3"
    by (simp add: is_first_def is_last_def lit_def cp_def)
  have c: "is_first (cp CHR ''{'') (lit ''}{'') 1 \<and>
           is_last (cp CHR ''}'') (lit ''}{'') 0 \<and> (0::nat) < 1"
    by (simp add: is_first_def is_last_def lit_def cp_def)
  from a json_candidate_cases[of "lit ''abc''"]
  have 1: "json_candidate (lit ''abc'') = lit ''abc''"
    by blast
  from b json_candidate_cases[of "lit ''x{y}z''"]
  have "json_candidate (lit ''x{y}z'') = take (Suc (3 - 1)) (drop 1 (lit ''x{y}z''))"
    by blast
  then have 2: "json_candidate (lit ''x{y}z'') = lit ''{y}''"
    by (simp add: lit_def)
  from c json_candidate_cases[of "lit ''}{''"]
  have 3: "json_candidate (lit ''}{'') = []"
    by blast
  from 1 2 3 show ?thesis by simp
qed

text \<open>The claim as stated fails at the working text \<^verbatim>\<open>}{\<close>: both braces are there, the last
  \<^verbatim>\<open>}\<close> (index 0) stands before the first \<^verbatim>\<open>{\<close> (index 1), and the text handed to the
  decoder is empty, not the working text.\<close>

theorem json_candidate_reversed_braces:
  "working_text (lit ''}{'') = lit ''}{'' \<and>
   is_first (cp CHR ''{'') (lit ''}{'') 1 \<and> is_last (cp CHR ''}'') (lit ''}{'') 0 \<and>
   json_candidate (lit ''}{'') = [] \<and> json_candidate (lit ''}{'') \<noteq> lit ''}{''"
  by (simp add: working_text_def strip_fences_def py_strip_def py_isspace_def
      json_candidate_def py_find_def py_rfind_def py_slice_def is_first_def is_last_def
      lit_def cp_def)

end
